theory Spec2Isabelle
  imports
    Main
    "HOL-Library.FSet"
    "HOL-Library.Char_ord"
    "HOL-Library.List_Lexorder"
begin

section \<open>Cache documents\<close>

text \<open>
  A cached response is one document of the cache collection. The fields are the ones the
  repository writes with \<^verbatim>\<open>upsert_response\<close> (see
  \<^verbatim>\<open>services/worker/tests/test_job_manager.py\<close>): the key \<open>(kind, dataset, config, split)\<close>,
  the payload and its status, and the provenance of the entry. Any further field of a
  document (\<^verbatim>\<open>progress\<close>, \<^verbatim>\<open>updated_at\<close>) is in the extension part of the record.
  JSON payloads are kept as a small tree.
\<close>

datatype json =
    JNull
  | JBool bool
  | JInt int
  | JStr string
  | JList "json list"
  | JObj "(string \<times> json) list"

record cached_response =
  kind :: string
  dataset :: string
  config :: "string option"
  split :: "string option"
  content :: json
  http_status :: nat
  error_code :: "string option"
  details :: "json option"
  job_runner_version :: "int option"
  dataset_git_revision :: "string option"

section \<open>Migration \<^verbatim>\<open>_20230323155000_cache_dataset_info\<close>\<close>

text \<open>
  \<^verbatim>\<open>dataset_info = "/dataset-info"\<close> and \<^verbatim>\<open>dataset_info_updated = "dataset-info"\<close>.
\<close>

definition dataset_info :: string where
  "dataset_info = ''/dataset-info''"

definition dataset_info_updated :: string where
  "dataset_info_updated = ''dataset-info''"

text \<open>
  \<^verbatim>\<open>update_many({"kind": old}, {"$set": {"kind": new}})\<close>: every document whose \<open>kind\<close>
  equals \<open>old\<close> gets \<open>kind\<close> set to \<open>new\<close>; the other documents, the order of the
  collection and all other fields are left as they are.
\<close>

definition update_many_kind ::
  "string \<Rightarrow> string \<Rightarrow> 'a cached_response_scheme list \<Rightarrow> 'a cached_response_scheme list"
where
  "update_many_kind old new docs =
     map (\<lambda>d. if kind d = old then d\<lparr>kind := new\<rparr> else d) docs"

definition up :: "'a cached_response_scheme list \<Rightarrow> 'a cached_response_scheme list" where
  "up docs = update_many_kind dataset_info dataset_info_updated docs"

definition down :: "'a cached_response_scheme list \<Rightarrow> 'a cached_response_scheme list" where
  "down docs = update_many_kind dataset_info_updated dataset_info docs"

text \<open>Two documents agree on every field but \<open>kind\<close>.\<close>

definition same_but_kind ::
  "'a cached_response_scheme \<Rightarrow> 'a cached_response_scheme \<Rightarrow> bool" where
  "same_but_kind d d' = (d'\<lparr>kind := kind d\<rparr> = d)"

section \<open>Route \<^verbatim>\<open>/valid\<close>: \<^verbatim>\<open>get_valid\<close>\<close>

text \<open>
  Of a processing step, \<^verbatim>\<open>get_valid\<close> reads the cache kind only. The steps it walks are
  the value of \<^verbatim>\<open>processing_graph.get_processing_steps_required_by_dataset_viewer()\<close>, and
  \<^verbatim>\<open>get_valid_datasets(kind=...)\<close> is the cache query, taken as a parameter: for each kind
  the finite set of dataset names with a valid entry.
\<close>

record processing_step =
  name :: string
  cache_kind :: string

text \<open>
  The \<^verbatim>\<open>for\<close> loop over the required steps; \<open>datasets\<close> is \<open>None\<close> until the first
  iteration has filled it, and is intersected with each later step's set.
\<close>

fun get_valid_loop ::
  "(string \<Rightarrow> string fset) \<Rightarrow> processing_step list \<Rightarrow> string fset option \<Rightarrow> string fset option"
where
  "get_valid_loop get_valid_datasets [] datasets = datasets"
| "get_valid_loop get_valid_datasets (processing_step # rest) datasets =
     (let kind_datasets = get_valid_datasets (cache_kind processing_step) in
      get_valid_loop get_valid_datasets rest
        (case datasets of
           None \<Rightarrow> Some kind_datasets
         | Some ds \<Rightarrow> Some (ds |\<inter>| kind_datasets)))"

text \<open>
  \<^verbatim>\<open>return [] if datasets is None else sorted(datasets)\<close>. Python sorts strings by code
  point, which is the lexicographic order of the characters.
\<close>

definition get_valid :: "(string \<Rightarrow> string fset) \<Rightarrow> processing_step list \<Rightarrow> string list" where
  "get_valid get_valid_datasets steps =
     (case get_valid_loop get_valid_datasets steps None of
        None \<Rightarrow> []
      | Some datasets \<Rightarrow> sorted_list_of_fset datasets)"

section \<open>Job runner \<^verbatim>\<open>split-first-rows-from-streaming\<close>: exceptions\<close>

text \<open>
  The Python exceptions the module meets. \<open>ConnectionError\<close> stands for the builtin class
  and its subclasses (what \<^verbatim>\<open>except ConnectionError\<close> catches), \<open>DoesNotExist\<close> for the
  cache's exception, \<open>OtherException\<close> for any other subclass of \<^verbatim>\<open>Exception\<close>.
  \<open>RuntimeError attempt last_err\<close> is
  \<^verbatim>\<open>RuntimeError(f"Give up after {attempt} attempts with ConnectionError")\<close> raised
  \<^verbatim>\<open>from last_err\<close>.
\<close>

datatype exn =
    ConnectionError string
  | TypeError string
  | ValueError string
  | KeyError string
  | AttributeError string
  | DoesNotExist
  | OtherException string
  | RuntimeError nat "exn option"

definition OK :: nat where
  "OK = 200"

definition INTERNAL_SERVER_ERROR :: nat where
  "INTERNAL_SERVER_ERROR = 500"

definition NOT_IMPLEMENTED :: nat where
  "NOT_IMPLEMENTED = 501"

text \<open>
  The exception classes the module declares, all subclasses of
  \<^verbatim>\<open>SplitFirstRowsFromStreamingJobRunnerError\<close>. Each constructor call fixes the status
  code, the code string and the \<^verbatim>\<open>disclose_cause\<close> flag.
\<close>

datatype first_rows_error =
    SplitsNamesError
  | EmptyDatasetError
  | InfoError
  | FeaturesError
  | StreamingRowsError
  | NormalRowsError
  | RowsPostProcessingError
  | TooManyColumnsError
  | TooBigContentError
  | PreviousStepStatusError
  | PreviousStepFormatError



fun disclose_cause :: "first_rows_error \<Rightarrow> bool" where
  "disclose_cause SplitsNamesError = True"
| "disclose_cause EmptyDatasetError = True"
| "disclose_cause InfoError = True"
| "disclose_cause FeaturesError = True"
| "disclose_cause StreamingRowsError = True"
| "disclose_cause NormalRowsError = True"
| "disclose_cause RowsPostProcessingError = False"
| "disclose_cause TooManyColumnsError = True"
| "disclose_cause TooBigContentError = False"
| "disclose_cause PreviousStepStatusError = False"
| "disclose_cause PreviousStepFormatError = False"


section \<open>The \<^verbatim>\<open>retry\<close> decorator\<close>

text \<open>\<^verbatim>\<open>SLEEPS = [1, 7, 70, 7 * 60, 70 * 60]\<close> and \<^verbatim>\<open>MAX_ATTEMPTS = len(SLEEPS)\<close>.\<close>

definition SLEEPS :: "nat list" where
  "SLEEPS = [1, 7, 70, 7 * 60, 70 * 60]"

definition MAX_ATTEMPTS :: nat where
  "MAX_ATTEMPTS = length SLEEPS"

text \<open>
  The decorated function has effects, so its calls may differ: \<open>func attempt\<close> is what the
  call made in the iteration with counter \<open>attempt\<close> does, \<open>Inr\<close> its result or \<open>Inl\<close> the
  exception it raises. The counter grows by one exactly when a call has raised
  \<open>ConnectionError\<close>, so it is also the number of calls made before. The state of the
  loop is \<open>attempt\<close>, \<open>last_err\<close> and the durations slept so far; the loop returns the
  outcome of the decorated call with those durations.
\<close>

function retry_loop ::
  "(nat \<Rightarrow> exn + 'a) \<Rightarrow> nat \<Rightarrow> exn option \<Rightarrow> nat list \<Rightarrow> (exn + 'a) \<times> nat list"
where
  "retry_loop func attempt last_err slept =
     (if attempt < MAX_ATTEMPTS then
        (let duration = SLEEPS ! attempt;
             slept' = slept @ [duration]
         in case func attempt of
              Inr result \<Rightarrow> (Inr result, slept')
            | Inl (ConnectionError m) \<Rightarrow>
                retry_loop func (attempt + 1) (Some (ConnectionError m)) slept'
            | Inl err \<Rightarrow> (Inl err, slept'))
      else (Inl (RuntimeError attempt last_err), slept))"
  by pat_completeness auto
termination
  by (relation "measure (\<lambda>(func, attempt, last_err, slept). MAX_ATTEMPTS - attempt)") auto

definition retry :: "(nat \<Rightarrow> exn + 'a) \<Rightarrow> (exn + 'a) \<times> nat list" where
  "retry func = retry_loop func 0 None []"

fun is_ConnectionError :: "exn + 'a \<Rightarrow> bool" where
  "is_ConnectionError (Inl (ConnectionError m)) = True"
| "is_ConnectionError _ = False"

section \<open>\<^verbatim>\<open>get_rows\<close>\<close>

text \<open>
  \<^verbatim>\<open>load_dataset\<close> returns an object of one of four classes. Iterating it yields rows, and
  a step of the iteration may raise (a streamed split reads the network).
\<close>

datatype ds_type = IterableDataset | Dataset | DatasetDict | IterableDatasetDict

datatype 'row item = Row 'row | Raises exn

record 'row loaded =
  ds_type :: ds_type
  ds_items :: "'row item list"

text \<open>
  \<^verbatim>\<open>list(itertools.islice(ds, stop))\<close>: at most \<open>stop\<close> items are asked of the iterator,
  and an item that raises ends the call with its exception. \<^verbatim>\<open>islice\<close> refuses a stop
  that is negative or larger than \<^verbatim>\<open>sys.maxsize\<close> with a \<^verbatim>\<open>ValueError\<close>.
\<close>

fun islice :: "'row item list \<Rightarrow> nat \<Rightarrow> exn + 'row list" where
  "islice ds 0 = Inr []"
| "islice [] (Suc n) = Inr []"
| "islice (Raises e # ds) (Suc n) = Inl e"
| "islice (Row r # ds) (Suc n) =
     (case islice ds n of Inl e \<Rightarrow> Inl e | Inr rows \<Rightarrow> Inr (r # rows))"

definition sys_maxsize :: int where
  "sys_maxsize = 2 ^ 63 - 1"

definition list_islice :: "'row item list \<Rightarrow> int \<Rightarrow> exn + 'row list" where
  "list_islice ds stop =
     (if stop < 0 \<or> sys_maxsize < stop
      then Inl (ValueError ''Stop argument for islice() must be None or an integer: 0 <= x <= sys.maxsize.'')
      else islice ds (nat stop))"

text \<open>The slice \<^verbatim>\<open>xs[:k]\<close>: a negative \<open>k\<close> counts from the end of the list.\<close>

definition slice_to :: "'a list \<Rightarrow> int \<Rightarrow> 'a list" where
  "slice_to xs k =
     (if k < 0 then take (nat (int (length xs) + k)) xs else take (nat k) xs)"

text \<open>
  The body of \<^verbatim>\<open>get_rows\<close>, given what its call of \<^verbatim>\<open>load_dataset\<close> does.
\<close>

definition get_rows_body :: "(exn + 'row loaded) \<Rightarrow> bool \<Rightarrow> int \<Rightarrow> exn + 'row list" where
  "get_rows_body load streaming rows_max_number =
     (case load of
        Inl e \<Rightarrow> Inl e
      | Inr ds \<Rightarrow>
          if streaming \<and> ds_type ds \<noteq> IterableDataset
          then Inl (TypeError ''load_dataset should return an IterableDataset in streaming mode'')
          else if \<not> streaming \<and> ds_type ds \<noteq> Dataset
          then Inl (TypeError ''load_dataset should return a Dataset in normal mode'')
          else (case list_islice (ds_items ds) (rows_max_number + 1) of
                  Inl e \<Rightarrow> Inl e
                | Inr rows_plus_one \<Rightarrow> Inr (slice_to rows_plus_one rows_max_number)))"

text \<open>
  \<^verbatim>\<open>@retry def get_rows\<close>. \<open>load_dataset streaming attempt\<close> is what the hub answers to
  the call of \<^verbatim>\<open>load_dataset\<close> in the given mode at the given attempt; the dataset, the
  config, the split and the token are the same at every call.
\<close>

definition get_rows ::
  "(bool \<Rightarrow> nat \<Rightarrow> exn + 'row loaded) \<Rightarrow> bool \<Rightarrow> int \<Rightarrow> (exn + 'row list) \<times> nat list" where
  "get_rows load_dataset streaming rows_max_number =
     retry (\<lambda>attempt. get_rows_body (load_dataset streaming attempt) streaming rows_max_number)"

section \<open>\<^verbatim>\<open>compute_first_rows_response\<close>\<close>



type_synonym row = "string \<rightharpoonup> json"

















section \<open>The cache store and the job manager\<close>

text \<open>
  Modelled from the spec: the cache store (\<^verbatim>\<open>libcommon.simple_cache\<close>) is not among the
  sources. Section 3 of the specification keeps at most one entry per key
  \<open>(kind, dataset, config, split)\<close>, and section 6 gives the store the operations
  \<^verbatim>\<open>upsert(key, entry)\<close> and \<^verbatim>\<open>get(key) -> entry | NotFound\<close>; the tests call them
  \<^verbatim>\<open>upsert_response\<close> and \<^verbatim>\<open>get_response\<close>, which raises \<^verbatim>\<open>DoesNotExist\<close>.
\<close>

type_synonym cache = "string \<times> string \<times> string option \<times> string option \<rightharpoonup> cached_response"

text \<open>
  Modelled from the spec: \<^verbatim>\<open>upsert_response\<close> of \<^verbatim>\<open>libcommon.simple_cache\<close>, the store's
  \<^verbatim>\<open>upsert(key, entry)\<close>: the entry replaces whatever the cache held under its key.
\<close>

definition upsert_response :: "cached_response \<Rightarrow> cache \<Rightarrow> cache" where
  "upsert_response entry c = c((kind entry, dataset entry, config entry, split entry) \<mapsto> entry)"

text \<open>
  Modelled from the spec: \<^verbatim>\<open>get_response\<close> of \<^verbatim>\<open>libcommon.simple_cache\<close>, the store's
  \<^verbatim>\<open>get(key) -> entry | NotFound\<close>, raising \<^verbatim>\<open>DoesNotExist\<close> as the tests expect.
\<close>

definition get_response ::
  "cache \<Rightarrow> string \<Rightarrow> string \<Rightarrow> string option \<Rightarrow> string option \<Rightarrow> exn + cached_response" where
  "get_response c k d cfg spl =
     (case c (k, d, cfg, spl) of None \<Rightarrow> Inl DoesNotExist | Some entry \<Rightarrow> Inr entry)"

text \<open>
  A job as the tests build it: \<^verbatim>\<open>JobInfo(job_id, type, params={dataset, config, split},
  priority)\<close>.
\<close>

datatype priority = LOW | NORMAL

record job_info =
  job_id :: string
  job_type :: string
  job_dataset :: string
  job_config :: "string option"
  job_split :: "string option"
  job_priority :: priority

text \<open>
  Modelled from the spec: the structured errors (\<^verbatim>\<open>libcommon.exceptions.CustomError\<close>) are
  not among the sources. Section 9 gives an error "a stable code string" and "an
  HTTP-status-like severity"; the tests read the code, the status and the response body
  \<^verbatim>\<open>{"error": message}\<close>.
\<close>

record custom_error =
  err_message :: string
  err_status_code :: nat
  err_code :: string

text \<open>
  Modelled from the spec: \<^verbatim>\<open>CustomError.as_response\<close>; \<^verbatim>\<open>test_job_runner_set_crashed\<close> and
  \<^verbatim>\<open>test_previous_step_error\<close> expect the body \<^verbatim>\<open>{"error": message}\<close>.
\<close>

definition as_response :: "custom_error \<Rightarrow> json" where
  "as_response e = JObj [(''error'', JStr (err_message e))]"

text \<open>
  Modelled from the spec: the error of the parallel-step guard;
  \<^verbatim>\<open>test_raise_if_parallel_response_exists\<close> expects the code
  \<^verbatim>\<open>ResponseAlreadyComputedError\<close> and the status \<^verbatim>\<open>INTERNAL_SERVER_ERROR\<close>.
\<close>

definition ResponseAlreadyComputedError :: "string \<Rightarrow> custom_error" where
  "ResponseAlreadyComputedError message =
     \<lparr>err_message = message, err_status_code = INTERNAL_SERVER_ERROR,
      err_code = ''ResponseAlreadyComputedError''\<rparr>"

text \<open>
  Modelled from the spec: the "dedicated crashed error code" of section 4.4, step 6;
  \<^verbatim>\<open>test_job_runner_set_crashed\<close> expects the code \<^verbatim>\<open>JobManagerCrashedError\<close> and the
  status \<^verbatim>\<open>NOT_IMPLEMENTED\<close>.
\<close>

definition JobManagerCrashedError :: "string \<Rightarrow> custom_error" where
  "JobManagerCrashedError message =
     \<lparr>err_message = message, err_status_code = NOT_IMPLEMENTED,
      err_code = ''JobManagerCrashedError''\<rparr>"

text \<open>
  Modelled from the spec: the message of the guard's error, which names the sibling's
  cache kind; no source fixes its wording.
\<close>

definition already_computed_message :: "string \<Rightarrow> string" where
  "already_computed_message parallel_cache_kind =
     ''Response has already been computed and stored in cache kind: '' @ parallel_cache_kind"

text \<open>
  Modelled from the spec: \<^verbatim>\<open>raise_if_parallel_response_exists\<close> is a method of the job
  runner's base class, which is not among the sources. Section 4.4, step 2: "check
  whether an equivalent result already exists under the step's configured parallel
  sibling kind, with a matching \<^verbatim>\<open>dataset_git_revision\<close> and version \<open>\<ge>\<close> the sibling's
  required version; if so, abort with \<^verbatim>\<open>ResponseAlreadyComputedError\<close>". The test
  \<^verbatim>\<open>test_raise_if_parallel_response_exists\<close> reads the code and the status of the error.
\<close>

definition raise_if_parallel_response_exists ::
  "job_info \<Rightarrow> string \<Rightarrow> cache \<Rightarrow> string \<Rightarrow> int \<Rightarrow> custom_error + unit" where
  "raise_if_parallel_response_exists job current_revision c parallel_cache_kind
     parallel_job_version =
     (case get_response c parallel_cache_kind (job_dataset job) (job_config job) (job_split job) of
        Inl _ \<Rightarrow> Inr ()
      | Inr existing_response \<Rightarrow>
          if dataset_git_revision existing_response = Some current_revision
             \<and> (case job_runner_version existing_response of
                  None \<Rightarrow> False
                | Some v \<Rightarrow> parallel_job_version \<le> v)
          then Inl (ResponseAlreadyComputedError (already_computed_message parallel_cache_kind))
          else Inr ())"




text \<open>
  Modelled from the spec: the job manager (\<^verbatim>\<open>worker.job_manager.JobManager\<close>) is not among
  the sources; its test \<^verbatim>\<open>test_job_manager.py\<close> is. A manager holds the job, the
  processing step of its runner, the runner's version and the step's configured parallel
  sibling, if any: the cache kind and the required version that a runner's
  \<^verbatim>\<open>get_parallel_job_runner\<close> gives (as in \<^verbatim>\<open>split_names_from_streaming.py\<close>).
\<close>

record job_manager =
  jm_job_info :: job_info
  jm_processing_step :: processing_step
  jm_job_runner_version :: int
  jm_parallel :: "(string \<times> int) option"

text \<open>
  Modelled from the spec: the revision resolver of section 6,
  \<^verbatim>\<open>resolve_revision(dataset) -> revision_id | NotFoundError\<close>, and the computation runner,
  \<^verbatim>\<open>compute(...) -> payload | ComputationError\<close>, as the outcomes of their calls.
\<close>

datatype resolution = Revision string | NotFoundError

text \<open>
  Modelled from the spec: the entry of a success, section 4.4, step 4: "upsert the
  CacheEntry for this job's key with \<^verbatim>\<open>http_status=success\<close>, current version, the dataset's
  current revision, and the payload".
\<close>

definition success_entry :: "job_manager \<Rightarrow> string \<Rightarrow> json \<Rightarrow> cached_response" where
  "success_entry jm revision payload =
     \<lparr>kind = cache_kind (jm_processing_step jm),
      dataset = job_dataset (jm_job_info jm),
      config = job_config (jm_job_info jm),
      split = job_split (jm_job_info jm),
      content = payload, http_status = OK, error_code = None, details = None,
      job_runner_version = Some (jm_job_runner_version jm),
      dataset_git_revision = Some revision\<rparr>"

text \<open>
  Modelled from the spec: the entry of an error, section 4.4, step 4: "an error
  CacheEntry instead, carrying the structured error code"; content and details hold the
  error's response body.
\<close>

definition error_entry :: "job_manager \<Rightarrow> string option \<Rightarrow> custom_error \<Rightarrow> cached_response" where
  "error_entry jm revision e =
     \<lparr>kind = cache_kind (jm_processing_step jm),
      dataset = job_dataset (jm_job_info jm),
      config = job_config (jm_job_info jm),
      split = job_split (jm_job_info jm),
      content = as_response e, http_status = err_status_code e,
      error_code = Some (err_code e), details = Some (as_response e),
      job_runner_version = Some (jm_job_runner_version jm),
      dataset_git_revision = revision\<rparr>"

text \<open>
  Modelled from the spec: the parallel-step guard of the manager, section 4.4, step 2, for
  the sibling the step is configured with.
\<close>

definition parallel_guard :: "job_manager \<Rightarrow> string \<Rightarrow> cache \<Rightarrow> custom_error + unit" where
  "parallel_guard jm revision c =
     (case jm_parallel jm of
        None \<Rightarrow> Inr ()
      | Some (parallel_cache_kind, parallel_job_version) \<Rightarrow>
          raise_if_parallel_response_exists (jm_job_info jm) revision c
            parallel_cache_kind parallel_job_version)"

text \<open>
  Modelled from the spec: \<^verbatim>\<open>JobManager.process\<close>, section 4.4, steps 2 to 4: the
  parallel-step guard; the computation; the commit of a success entry, or of an error
  entry on a computation error. By section 7 a job stopped by the guard "exits without
  writing a new entry". For a dataset the resolver does not find, the model follows the
  repository's test \<^verbatim>\<open>test_doesnotexist\<close>, which asserts that \<^verbatim>\<open>process()\<close> returns
  \<^verbatim>\<open>False\<close> and that \<^verbatim>\<open>get_response\<close> for the job's key raises \<^verbatim>\<open>DoesNotExist\<close>
  afterwards. The result is the value \<^verbatim>\<open>process()\<close> returns, and the cache.
\<close>

definition process ::
  "job_manager \<Rightarrow> resolution \<Rightarrow> (custom_error + json) \<Rightarrow> cache \<Rightarrow> bool \<times> cache" where
  "process jm resolved computed c =
     (case resolved of
        NotFoundError \<Rightarrow> (False, c)
      | Revision revision \<Rightarrow>
          (case parallel_guard jm revision c of
             Inl already_computed \<Rightarrow> (False, c)
           | Inr _ \<Rightarrow>
               (case computed of
                  Inr payload \<Rightarrow> (True, upsert_response (success_entry jm revision payload) c)
                | Inl e \<Rightarrow> (False, upsert_response (error_entry jm (Some revision) e) c))))"

text \<open>
  Modelled from the spec: \<^verbatim>\<open>JobManager.set_crashed\<close>, section 4.4, step 6: "it commits an
  error CacheEntry with a dedicated crashed error code". The test
  \<^verbatim>\<open>test_job_runner_set_crashed\<close> reads back the status \<^verbatim>\<open>NOT_IMPLEMENTED\<close>, the code, the
  key and the body \<^verbatim>\<open>{"error": message}\<close> of content and details.
\<close>

definition set_crashed :: "job_manager \<Rightarrow> string \<Rightarrow> string option \<Rightarrow> cache \<Rightarrow> cache" where
  "set_crashed jm message revision c =
     upsert_response (error_entry jm revision (JobManagerCrashedError message)) c"

section \<open>Example data\<close>

text \<open>Two cache documents, one of the kind the migration renames.\<close>

definition doc_a :: cached_response where
  "doc_a = \<lparr>kind = ''/dataset-info'', dataset = ''glue'', config = None, split = None,
     content = JObj [], http_status = 200, error_code = None, details = None,
     job_runner_version = Some 1, dataset_git_revision = Some ''abc''\<rparr>"

definition doc_b :: cached_response where
  "doc_b = \<lparr>kind = ''/splits'', dataset = ''glue'', config = None, split = None,
     content = JObj [], http_status = 200, error_code = None, details = None,
     job_runner_version = Some 1, dataset_git_revision = Some ''abc''\<rparr>"

text \<open>
  Two steps required by the viewer, and a cache in which \<^verbatim>\<open>glue\<close> is valid for both and
  \<^verbatim>\<open>squad\<close> for the first only.
\<close>

definition step_S1 :: processing_step where
  "step_S1 = \<lparr>name = ''S1'', cache_kind = ''S1''\<rparr>"

definition step_S2 :: processing_step where
  "step_S2 = \<lparr>name = ''S2'', cache_kind = ''S2''\<rparr>"

definition valid_S1_S2 :: "string \<Rightarrow> string fset" where
  "valid_S1_S2 k =
     (if k = ''S1'' then {|''squad'', ''glue''|}
      else if k = ''S2'' then {|''glue''|}
      else {||})"




text \<open>
  A split of three rows whose iterator raises once the rows are exhausted; the hub
  answers every call alike.
\<close>

definition three_rows :: "bool \<Rightarrow> nat \<Rightarrow> exn + string loaded" where
  "three_rows streaming attempt =
     Inr \<lparr>ds_type = (if streaming then IterableDataset else Dataset),
          ds_items = [Row ''r0'', Row ''r1'', Row ''r2'', Raises (ConnectionError ''late'')]\<rparr>"




text \<open>
  The data of the job manager's tests: a job of type \<^verbatim>\<open>dummy\<close> on
  \<open>(dataset, config, split)\<close>, a manager whose step has the parallel sibling
  \<^verbatim>\<open>dummy-parallel\<close> at version 1, a cache holding the sibling's entry at the current
  revision, and a manager for a job on a dataset that does not exist.
\<close>

definition dummy_step :: processing_step where
  "dummy_step = \<lparr>name = ''dummy'', cache_kind = ''dummy''\<rparr>"

definition dummy_job :: job_info where
  "dummy_job = \<lparr>job_id = ''job_id'', job_type = ''dummy'', job_dataset = ''dataset'',
     job_config = Some ''config'', job_split = Some ''split'', job_priority = NORMAL\<rparr>"

definition dummy_manager :: job_manager where
  "dummy_manager = \<lparr>jm_job_info = dummy_job, jm_processing_step = dummy_step,
     jm_job_runner_version = 1, jm_parallel = Some (''dummy-parallel'', 1)\<rparr>"



definition doesnotexist_manager :: job_manager where
  "doesnotexist_manager =
     \<lparr>jm_job_info = \<lparr>job_id = ''job_id'', job_type = ''dummy'', job_dataset = ''doesnotexist'',
        job_config = Some ''doesnotexist'', job_split = Some ''train'', job_priority = NORMAL\<rparr>,
      jm_processing_step = dummy_step, jm_job_runner_version = 1, jm_parallel = None\<rparr>"

section \<open>Properties of the migration\<close>

lemma update_many_kind_same_but_kind:
  "list_all2 same_but_kind docs (update_many_kind old new docs)"
  by (induction docs) (simp_all add: update_many_kind_def same_but_kind_def)

lemma update_many_kind_roundtrip:
  assumes "\<forall>d \<in> set docs. kind d \<noteq> new"
  shows "update_many_kind new old (update_many_kind old new docs) = docs"
  using assms by (induction docs) (auto simp: update_many_kind_def)

text \<open>
  Claim C10. On a collection in which no document has kind \<^verbatim>\<open>"dataset-info"\<close>, running
  \<open>up\<close> and then \<open>down\<close> gives the collection back, so every document has its original
  kind again; and each of the two operations keeps the number and order of the documents
  and changes no field of a document other than \<open>kind\<close>.
\<close>

theorem migration_up_down_roundtrip:
  assumes "\<forall>d \<in> set docs. kind d \<noteq> dataset_info_updated"
  shows "down (up docs) = docs
       \<and> list_all2 same_but_kind docs (up docs)
       \<and> list_all2 same_but_kind docs (down docs)"
  using assms
  by (simp add: up_def down_def update_many_kind_roundtrip update_many_kind_same_but_kind)

theorem migration_up_down_roundtrip_witness:
  "down (up [doc_a, doc_b]) = [doc_a, doc_b]
 \<and> map kind (up [doc_a, doc_b]) = [''dataset-info'', ''/splits'']
 \<and> list_all2 same_but_kind [doc_a, doc_b] (up [doc_a, doc_b])
 \<and> list_all2 same_but_kind [doc_a, doc_b] (down [doc_a, doc_b])"
  using migration_up_down_roundtrip [of "[doc_a, doc_b]"]
  by (simp add: doc_a_def doc_b_def dataset_info_updated_def dataset_info_def up_def
      update_many_kind_def)

section \<open>Properties of \<^verbatim>\<open>get_valid\<close>\<close>

text \<open>
  Once the first step has filled \<open>datasets\<close>, the loop ends with the datasets of the
  start set that are valid for every remaining step.
\<close>

lemma get_valid_loop_Some:
  "\<exists>B. get_valid_loop gvd steps (Some A) = Some B
      \<and> (\<forall>d. d |\<in>| B \<longleftrightarrow> d |\<in>| A \<and> (\<forall>s \<in> set steps. d |\<in>| gvd (cache_kind s)))"
proof (induction steps arbitrary: A)
  case Nil
  show ?case by simp
next
  case (Cons s steps)
  obtain B where B: "get_valid_loop gvd steps (Some (A |\<inter>| gvd (cache_kind s))) = Some B"
    "\<forall>d. d |\<in>| B \<longleftrightarrow> d |\<in>| A |\<inter>| gvd (cache_kind s) \<and> (\<forall>t \<in> set steps. d |\<in>| gvd (cache_kind t))"
    using Cons.IH [of "A |\<inter>| gvd (cache_kind s)"] by blast
  show ?case using B by (auto simp: Let_def)
qed

lemma get_valid_nonempty:
  assumes "steps \<noteq> []"
  shows "d \<in> set (get_valid gvd steps) \<longleftrightarrow> (\<forall>s \<in> set steps. d |\<in>| gvd (cache_kind s))"
proof -
  obtain s rest where sr: "steps = s # rest" using assms by (cases steps) auto
  obtain B where B: "get_valid_loop gvd rest (Some (gvd (cache_kind s))) = Some B"
    "\<forall>d. d |\<in>| B \<longleftrightarrow> d |\<in>| gvd (cache_kind s) \<and> (\<forall>t \<in> set rest. d |\<in>| gvd (cache_kind t))"
    using get_valid_loop_Some [of gvd rest "gvd (cache_kind s)"] by blast
  have "get_valid gvd steps = sorted_list_of_fset B"
    using B(1) by (simp add: get_valid_def sr Let_def)
  then show ?thesis using B(2) by (simp add: sr)
qed

lemma get_valid_Nil: "get_valid gvd [] = []"
  by (simp add: get_valid_def)

text \<open>
  Claim C1, as amended. When the viewer requires at least one step, a dataset is in the
  list \<^verbatim>\<open>get_valid\<close> returns if and only if it is in the set of valid datasets of every
  required step's cache kind; when it requires none, the list is empty. In both cases a
  dataset that is taken out of the valid set of one required step's kind is not in the
  list.
\<close>

theorem get_valid_membership:
  "(steps = [] \<longrightarrow> get_valid gvd steps = [])
 \<and> (steps \<noteq> [] \<longrightarrow>
      (d \<in> set (get_valid gvd steps) \<longleftrightarrow> (\<forall>s \<in> set steps. d |\<in>| gvd (cache_kind s))))
 \<and> (\<forall>s \<in> set steps.
      d \<notin> set (get_valid (gvd (cache_kind s := gvd (cache_kind s) |-| {|d|})) steps))"
proof (intro conjI impI ballI)
  assume "steps = []"
  then show "get_valid gvd steps = []" by (simp add: get_valid_Nil)
next
  assume "steps \<noteq> []"
  then show "d \<in> set (get_valid gvd steps) \<longleftrightarrow> (\<forall>s \<in> set steps. d |\<in>| gvd (cache_kind s))"
    by (rule get_valid_nonempty)
next
  fix s assume s: "s \<in> set steps"
  let ?g = "gvd (cache_kind s := gvd (cache_kind s) |-| {|d|})"
  from s have ne: "steps \<noteq> []" by auto
  have "\<not> (\<forall>t \<in> set steps. d |\<in>| ?g (cache_kind t))"
    using s by (auto intro!: bexI [of _ s])
  then show "d \<notin> set (get_valid ?g steps)"
    using get_valid_nonempty [OF ne, of d ?g] by blast
qed

theorem get_valid_membership_witness:
  "[step_S1, step_S2] \<noteq> []
 \<and> ''glue'' \<in> set (get_valid valid_S1_S2 [step_S1, step_S2])
 \<and> ''glue'' |\<in>| valid_S1_S2 (cache_kind step_S1)
 \<and> ''glue'' |\<in>| valid_S1_S2 (cache_kind step_S2)
 \<and> ''glue'' \<notin> set (get_valid
      (valid_S1_S2 (cache_kind step_S2 := valid_S1_S2 (cache_kind step_S2) |-| {|''glue''|}))
      [step_S1, step_S2])"
  using get_valid_membership [of "[step_S1, step_S2]" valid_S1_S2 "''glue''"]
  by (simp add: step_S1_def step_S2_def valid_S1_S2_def)

text \<open>
  Claim C1 as stated fails for a graph in which the viewer requires no step: every dataset
  satisfies the condition on "every required step", and \<^verbatim>\<open>get_valid\<close> lists none.
\<close>

theorem get_valid_no_required_step_counterexample:
  "\<not> (''glue'' \<in> set (get_valid valid_S1_S2 [])
      \<longleftrightarrow> (\<forall>s \<in> set ([] :: processing_step list). ''glue'' |\<in>| valid_S1_S2 (cache_kind s)))"
  by (simp add: get_valid_def)

section \<open>Properties of the \<^verbatim>\<open>retry\<close> decorator\<close>

declare retry_loop.simps [simp del]

lemma MAX_ATTEMPTS_5: "MAX_ATTEMPTS = 5"
  by (simp add: MAX_ATTEMPTS_def SLEEPS_def)

lemma SLEEPS_values: "SLEEPS = [1, 7, 70, 420, 4200]"
  by (simp add: SLEEPS_def)

lemma length_SLEEPS: "length SLEEPS = MAX_ATTEMPTS"
  by (simp add: MAX_ATTEMPTS_def)

lemma drop_take_snoc:
  assumes "a < length xs"
  shows "drop a (take (Suc a) xs) = [xs ! a]"
  using assms by (simp add: drop_take take_Suc_conv_app_nth)

lemma drop_take_step:
  assumes "a < length xs" "a < n"
  shows "[xs ! a] @ drop (Suc a) (take n xs) = drop a (take n xs)"
  using assms by (metis Cons_nth_drop_Suc append_Cons append_Nil length_take min_less_iff_conj nth_take)

text \<open>
  The first call that does not raise \<^verbatim>\<open>ConnectionError\<close> decides the outcome, and the
  durations slept up to it are the head of the schedule.
\<close>

lemma retry_loop_decides:
  assumes "a \<le> k" "k < MAX_ATTEMPTS"
    and "\<forall>i. a \<le> i \<and> i < k \<longrightarrow> is_ConnectionError (func i)"
    and "\<not> is_ConnectionError (func k)"
  shows "retry_loop func a le sl = (func k, sl @ drop a (take (Suc k) SLEEPS))"
  using assms
proof (induction "k - a" arbitrary: a le sl)
  case 0
  then have ak: "a = k" by simp
  have lt: "k < length SLEEPS" using 0 by (simp add: length_SLEEPS)
  show ?case
  proof (cases "func k")
    case (Inr v)
    then show ?thesis using 0 lt ak
      by (subst retry_loop.simps) (simp add: Let_def drop_take_snoc)
  next
    case (Inl e)
    with 0 have "\<not> is_ConnectionError (Inl e :: exn + 'a)" by simp
    then show ?thesis using 0 lt ak Inl
      by (subst retry_loop.simps) (cases e; simp add: Let_def drop_take_snoc)
  qed
next
  case (Suc n)
  then have ak: "a < k" by simp
  then have ce: "is_ConnectionError (func a)" using Suc.prems by simp
  then obtain m where m: "func a = Inl (ConnectionError m)"
    by (cases "func a" rule: is_ConnectionError.cases) auto
  have lt: "a < length SLEEPS" using Suc.prems ak by (simp add: length_SLEEPS)
  have IH: "retry_loop func (Suc a) (Some (ConnectionError m)) (sl @ [SLEEPS ! a])
        = (func k, (sl @ [SLEEPS ! a]) @ drop (Suc a) (take (Suc k) SLEEPS))"
    using Suc.hyps(1) [of "Suc a"] Suc.hyps(2) Suc.prems ak by simp
  have "retry_loop func a le sl = retry_loop func (Suc a) (Some (ConnectionError m)) (sl @ [SLEEPS ! a])"
    using Suc.prems ak m by (subst retry_loop.simps) (simp add: Let_def)
  then show ?case using IH drop_take_step [OF lt, of "Suc k"] ak by simp
qed

lemma retry_loop_gives_up:
  assumes "a \<le> MAX_ATTEMPTS"
    and "\<forall>i. a \<le> i \<and> i < MAX_ATTEMPTS \<longrightarrow> is_ConnectionError (func i)"
  shows "retry_loop func a le sl =
     (Inl (RuntimeError MAX_ATTEMPTS
        (if a = MAX_ATTEMPTS then le else Some (projl (func (MAX_ATTEMPTS - 1))))),
      sl @ drop a SLEEPS)"
  using assms
proof (induction "MAX_ATTEMPTS - a" arbitrary: a le sl)
  case 0
  then have "a = MAX_ATTEMPTS" by simp
  then show ?case
    by (subst retry_loop.simps) (simp add: length_SLEEPS [symmetric])
next
  case (Suc n)
  then have ak: "a < MAX_ATTEMPTS" by simp
  then have ce: "is_ConnectionError (func a)" using Suc.prems by simp
  then obtain m where m: "func a = Inl (ConnectionError m)"
    by (cases "func a" rule: is_ConnectionError.cases) auto
  have lt: "a < length SLEEPS" using ak by (simp add: length_SLEEPS)
  have IH: "retry_loop func (Suc a) (Some (ConnectionError m)) (sl @ [SLEEPS ! a])
        = (Inl (RuntimeError MAX_ATTEMPTS
            (if Suc a = MAX_ATTEMPTS then Some (ConnectionError m)
             else Some (projl (func (MAX_ATTEMPTS - 1))))),
           (sl @ [SLEEPS ! a]) @ drop (Suc a) SLEEPS)"
    using Suc.hyps(1) [of "Suc a"] Suc.hyps(2) Suc.prems ak by simp
  have last: "projl (func (MAX_ATTEMPTS - 1)) = ConnectionError m" if "Suc a = MAX_ATTEMPTS"
  proof -
    from that have "MAX_ATTEMPTS - 1 = a" by arith
    then show ?thesis using m by simp
  qed
  have "retry_loop func a le sl = retry_loop func (Suc a) (Some (ConnectionError m)) (sl @ [SLEEPS ! a])"
    using ak m by (subst retry_loop.simps) (simp add: Let_def)
  then show ?case using IH last ak lt by (auto simp: Cons_nth_drop_Suc)
qed

text \<open>Either some call among the first \<open>n\<close> decides, or all of them raise \<^verbatim>\<open>ConnectionError\<close>.\<close>

lemma first_decisive_attempt:
  "(\<forall>i < (n::nat). is_ConnectionError (func i))
   \<or> (\<exists>k < n. (\<forall>i < k. is_ConnectionError (func i)) \<and> \<not> is_ConnectionError (func k))"
proof (induction n)
  case 0
  show ?case by simp
next
  case (Suc n)
  then show ?case by (metis less_Suc_eq)
qed

lemma retry_decides:
  assumes "k < MAX_ATTEMPTS" "\<forall>i < k. is_ConnectionError (func i)" "\<not> is_ConnectionError (func k)"
  shows "retry func = (func k, take (Suc k) SLEEPS)"
  using retry_loop_decides [of 0 k func None "[]"] assms by (simp add: retry_def)

lemma retry_gives_up:
  assumes "\<forall>i < MAX_ATTEMPTS. is_ConnectionError (func i)"
  shows "retry func = (Inl (RuntimeError MAX_ATTEMPTS (Some (projl (func (MAX_ATTEMPTS - 1))))), SLEEPS)"
  using retry_loop_gives_up [of 0 func None "[]"] assms by (simp add: retry_def MAX_ATTEMPTS_5)


lemma retry_Inr:
  assumes "fst (retry func) = Inr v"
  shows "\<exists>k < MAX_ATTEMPTS. func k = Inr v"
proof -
  consider (giveup) "\<forall>i < MAX_ATTEMPTS. is_ConnectionError (func i)"
    | (decide) k where "k < MAX_ATTEMPTS" "\<forall>i < k. is_ConnectionError (func i)" "\<not> is_ConnectionError (func k)"
    using first_decisive_attempt [of MAX_ATTEMPTS func] by blast
  then show ?thesis
  proof cases
    case giveup
    then show ?thesis using assms by (simp add: retry_gives_up)
  next
    case decide
    then show ?thesis using assms by (auto simp: retry_decides)
  qed
qed



section \<open>Properties of \<^verbatim>\<open>get_rows\<close>\<close>

lemma islice_length: "islice ds n = Inr rows \<Longrightarrow> length rows \<le> n"
  by (induction ds n arbitrary: rows rule: islice.induct) (auto split: sum.splits)

lemma islice_take: "islice (take n ds) n = islice ds n"
  by (induction ds n rule: islice.induct) (auto split: sum.splits)

lemma get_rows_body_Inr:
  assumes "get_rows_body load streaming rows_max_number = Inr rows"
  shows "\<exists>ds rows_plus_one. load = Inr ds
     \<and> list_islice (ds_items ds) (rows_max_number + 1) = Inr rows_plus_one
     \<and> rows = slice_to rows_plus_one rows_max_number"
  using assms by (auto simp: get_rows_body_def split: sum.splits if_splits)

text \<open>
  Claim C9, as amended. For a non-negative \<open>rows_max_number\<close>, every successful call of
  \<^verbatim>\<open>get_rows\<close> returns at most \<open>rows_max_number\<close> rows: at some attempt the dataset was
  loaded, at most \<open>rows_max_number + 1\<close> of its items were read (the items after them
  do not matter), and the rows returned are the first \<open>rows_max_number\<close> of those.
\<close>

theorem get_rows_at_most_rows_max_number:
  assumes "fst (get_rows load_dataset streaming rows_max_number) = Inr rows"
    and "0 \<le> rows_max_number"
  shows "length rows \<le> nat rows_max_number
       \<and> (\<exists>attempt < MAX_ATTEMPTS. \<exists>ds rows_plus_one.
            load_dataset streaming attempt = Inr ds
          \<and> list_islice (ds_items ds) (rows_max_number + 1) = Inr rows_plus_one
          \<and> list_islice (take (nat rows_max_number + 1) (ds_items ds)) (rows_max_number + 1)
              = Inr rows_plus_one
          \<and> length rows_plus_one \<le> nat rows_max_number + 1
          \<and> rows = take (nat rows_max_number) rows_plus_one)"
proof -
  have "fst (retry (\<lambda>attempt.
      get_rows_body (load_dataset streaming attempt) streaming rows_max_number)) = Inr rows"
    using assms(1) by (simp add: get_rows_def)
  from retry_Inr [OF this]
  obtain attempt where a: "attempt < MAX_ATTEMPTS"
    "get_rows_body (load_dataset streaming attempt) streaming rows_max_number = Inr rows"
    by auto
  obtain ds rows_plus_one where d: "load_dataset streaming attempt = Inr ds"
    "list_islice (ds_items ds) (rows_max_number + 1) = Inr rows_plus_one"
    "rows = slice_to rows_plus_one rows_max_number"
    using get_rows_body_Inr [OF a(2)] by blast
  have n: "nat (rows_max_number + 1) = nat rows_max_number + 1" using assms(2) by simp
  have i: "islice (ds_items ds) (nat rows_max_number + 1) = Inr rows_plus_one"
    and ok: "\<not> (rows_max_number + 1 < 0 \<or> sys_maxsize < rows_max_number + 1)"
    using d(2) n by (auto simp: list_islice_def split: if_splits)
  have len: "length rows_plus_one \<le> nat rows_max_number + 1"
    using islice_length [OF i] .
  have tk: "list_islice (take (nat rows_max_number + 1) (ds_items ds)) (rows_max_number + 1)
      = Inr rows_plus_one"
    using ok i n by (simp add: list_islice_def islice_take)
  have rows: "rows = take (nat rows_max_number) rows_plus_one"
    using d(3) assms(2) by (simp add: slice_to_def)
  then have "length rows \<le> nat rows_max_number" by simp
  then show ?thesis using a(1) d(1,2) tk len rows by blast
qed

lemma retry_first_ok: "func 0 = Inr v \<Longrightarrow> retry func = (Inr v, [1])"
  using retry_decides [of 0 func] by (simp add: MAX_ATTEMPTS_5 SLEEPS_values)


lemma islice_3: "islice [Row a, Row b, Row c, Raises e] 3 = Inr [a, b, c]"
  by (simp add: numeral_3_eq_3)

lemma islice_0: "islice ds 0 = Inr []"
  by simp

lemma three_rows_2: "get_rows_body (three_rows True 0) True 2 = Inr [''r0'', ''r1'']"
proof -
  have "list_islice (ds_items \<lparr>ds_type = IterableDataset,
      ds_items = [Row ''r0'', Row ''r1'', Row ''r2'', Raises (ConnectionError ''late'')]\<rparr>) (2 + 1)
      = Inr [''r0'', ''r1'', ''r2'']"
    by (simp add: list_islice_def sys_maxsize_def islice_3)
  then show ?thesis
    by (simp add: get_rows_body_def three_rows_def slice_to_def)
qed

lemma three_rows_neg: "get_rows_body (three_rows True 0) True (- 1) = Inr []"
  by (simp add: get_rows_body_def three_rows_def list_islice_def sys_maxsize_def slice_to_def)

theorem get_rows_at_most_rows_max_number_witness:
  "fst (get_rows three_rows True 2) = Inr [''r0'', ''r1'']
 \<and> (0::int) \<le> 2
 \<and> length [''r0'', ''r1''] \<le> nat 2"
proof -
  have r: "fst (get_rows three_rows True 2) = Inr [''r0'', ''r1'']"
    by (simp add: get_rows_def retry_first_ok three_rows_2)
  show ?thesis using r get_rows_at_most_rows_max_number [OF r] by simp
qed

text \<open>
  Claim C9 as stated fails for \<open>rows_max_number = -1\<close>: \<^verbatim>\<open>islice(ds, 0)\<close> reads nothing,
  the slice \<^verbatim>\<open>[][:-1]\<close> is empty, and the call succeeds with zero rows, which is more
  than \<open>-1\<close>.
\<close>

theorem get_rows_negative_rows_max_number_counterexample:
  "fst (get_rows three_rows True (- 1)) = Inr []
 \<and> \<not> int (length ([] :: string list)) \<le> - 1"
  by (simp add: get_rows_def retry_first_ok three_rows_neg)

section \<open>Properties of \<^verbatim>\<open>compute_first_rows_response\<close>\<close>







section \<open>Properties of the job manager\<close>




text \<open>
  Claim C6. After \<^verbatim>\<open>set_crashed\<close> with a message, the cache holds under the job's
  \<open>(dataset, config, split)\<close> and its step's kind an entry whose error code is
  \<^verbatim>\<open>JobManagerCrashedError\<close>, whose status is \<^verbatim>\<open>NOT_IMPLEMENTED\<close>, an error status, and
  whose content and details are both \<^verbatim>\<open>{"error": message}\<close>.
\<close>

theorem set_crashed_commits_error_entry:
  "\<exists>entry.
     get_response (set_crashed jm message revision c) (cache_kind (jm_processing_step jm))
       (job_dataset (jm_job_info jm)) (job_config (jm_job_info jm)) (job_split (jm_job_info jm))
       = Inr entry
   \<and> dataset entry = job_dataset (jm_job_info jm)
   \<and> config entry = job_config (jm_job_info jm)
   \<and> split entry = job_split (jm_job_info jm)
   \<and> error_code entry = Some ''JobManagerCrashedError''
   \<and> http_status entry = NOT_IMPLEMENTED
   \<and> 400 \<le> http_status entry
   \<and> content entry = JObj [(''error'', JStr message)]
   \<and> details entry = Some (JObj [(''error'', JStr message)])"
  by (simp add: set_crashed_def upsert_response_def get_response_def error_entry_def
      JobManagerCrashedError_def as_response_def NOT_IMPLEMENTED_def)

theorem set_crashed_commits_error_entry_witness:
  "get_response (set_crashed dummy_manager ''crashed'' None Map.empty)
     ''dummy'' ''dataset'' (Some ''config'') (Some ''split'')
   = Inr \<lparr>kind = ''dummy'', dataset = ''dataset'', config = Some ''config'',
          split = Some ''split'', content = JObj [(''error'', JStr ''crashed'')],
          http_status = 501, error_code = Some ''JobManagerCrashedError'',
          details = Some (JObj [(''error'', JStr ''crashed'')]),
          job_runner_version = Some 1, dataset_git_revision = None\<rparr>"
  using set_crashed_commits_error_entry [of dummy_manager "''crashed''" None Map.empty]
  by (simp add: set_crashed_def upsert_response_def get_response_def error_entry_def
      JobManagerCrashedError_def as_response_def NOT_IMPLEMENTED_def dummy_manager_def
      dummy_job_def dummy_step_def)

text \<open>
  Claim C4, as amended. For a job on a dataset that the revision resolver does not find,
  processing the job fails (\<^verbatim>\<open>process()\<close> returns \<^verbatim>\<open>False\<close>) and leaves the cache as it
  was: every lookup gives what it gave before, so no entry is recorded under the job's
  key.
\<close>

theorem process_dataset_not_found:
  "process jm NotFoundError computed c = (False, c)
 \<and> get_response (snd (process jm NotFoundError computed c)) k d cfg spl = get_response c k d cfg spl"
  by (simp add: process_def)

text \<open>
  Claim C4 as stated fails on the job of \<^verbatim>\<open>test_doesnotexist\<close>: after processing it on an
  empty cache, the lookup of the job's key raises \<^verbatim>\<open>DoesNotExist\<close>; no error entry has
  been recorded.
\<close>

theorem process_dataset_not_found_counterexample:
  "fst (process doesnotexist_manager NotFoundError (Inr (JObj [(''key'', JStr ''value'')])) Map.empty)
     = False
 \<and> get_response
      (snd (process doesnotexist_manager NotFoundError (Inr (JObj [(''key'', JStr ''value'')]))
         Map.empty))
      ''dummy'' ''doesnotexist'' (Some ''doesnotexist'') (Some ''train'') = Inl DoesNotExist"
  by (simp add: process_def get_response_def)

end
